theory Spec2Isabelle
  imports Main "HOL-Library.Word" "HOL-Library.Monad_Syntax"
begin

unbundle bit_operations_syntax

section \<open>Alignment utilities\<close>

text \<open>
  Python integers are unbounded, so positions are \<open>int\<close>. A raised exception is the
  value \<open>None\<close>: in \<open>pad_count\<close> the \<^verbatim>\<open>assert pos >= 0\<close> (AssertionError) and
  the \<^verbatim>\<open>pos % multiplier\<close> with a zero multiplier (ZeroDivisionError). Python's
  \<^verbatim>\<open>%\<close> and HOL's \<open>mod\<close> on \<open>int\<close> both take the sign of the divisor.
\<close>

definition pad_count :: "int \<Rightarrow> int \<Rightarrow> int option" where
  "pad_count pos multiplier =
     (if \<not> pos \<ge> 0 then None
      else if multiplier = 0 then None
      else (let diff = pos mod multiplier
            in if diff = 0 then Some 0 else Some (multiplier - diff)))"

definition pad_till :: "int \<Rightarrow> int \<Rightarrow> int option" where
  "pad_till pos multiplier =
     (if \<not> pos \<ge> 0 then None
      else case pad_count pos multiplier of
             None \<Rightarrow> None
           | Some c \<Rightarrow> Some (pos + c))"


text \<open>
  Every layout computation below calls \<open>pad_till\<close> on a length or on a sum of lengths
  with the literal multiplier 64 or 4, where neither the assertion nor the division can
  fail; \<open>pad_till_len\<close> is \<open>pad_till\<close> on that domain (lemma \<open>pad_till_len_eq\<close>).
\<close>

definition pad_till_len :: "nat \<Rightarrow> nat \<Rightarrow> nat" where
  "pad_till_len pos multiplier =
     (let diff = pos mod multiplier
      in if diff = 0 then pos else pos + (multiplier - diff))"

section \<open>Bytes, struct packing, readers and writers\<close>

type_synonym byte = "8 word"
type_synonym bytes = "byte list"

text \<open>The byte order of a file: Python's struct prefixes \<^verbatim>\<open>'>'\<close> and \<^verbatim>\<open>'<'\<close>.\<close>

datatype byte_order = BigEndian | LittleEndian

definition bytes_of_string :: "string \<Rightarrow> bytes" where
  "bytes_of_string s = map (\<lambda>c. of_nat (of_char c)) s"

fun le_nat :: "bytes \<Rightarrow> nat" where
  "le_nat [] = 0"
| "le_nat (b # bs) = unat b + 256 * le_nat bs"

definition bytes_nat :: "byte_order \<Rightarrow> bytes \<Rightarrow> nat" where
  "bytes_nat bo bs = (case bo of LittleEndian \<Rightarrow> le_nat bs | BigEndian \<Rightarrow> le_nat (rev bs))"



text \<open>
  \<^verbatim>\<open>struct.unpack(bom + fmt, data)\<close> for a format of unsigned fields, given by the
  widths of the fields in bytes: it raises struct.error (\<open>None\<close>) unless the buffer has
  exactly the size of the format. With a byte-order prefix there is no alignment padding.
\<close>

fun split_fields :: "nat list \<Rightarrow> bytes \<Rightarrow> bytes list" where
  "split_fields [] bs = []"
| "split_fields (w # ws) bs = take w bs # split_fields ws (drop w bs)"

definition unpack :: "byte_order \<Rightarrow> nat list \<Rightarrow> bytes \<Rightarrow> nat list option" where
  "unpack bo ws bs =
     (if length bs \<noteq> sum_list ws then None
      else Some (map (bytes_nat bo) (split_fields ws bs)))"


text \<open>The signed 16-bit format \<^verbatim>\<open>'h'\<close>: two's complement over the unsigned field.\<close>

definition signed16 :: "nat \<Rightarrow> int" where
  "signed16 v = (if v \<ge> 32768 then int v - 65536 else int v)"


text \<open>
  A reader is a buffer and a position. \<^verbatim>\<open>reader.read(n)\<close> (with \<open>n \<ge> 0\<close>) returns the
  bytes available, at most \<open>n\<close>, none beyond the end, and advances by what it returned.
\<close>

definition rd :: "bytes \<Rightarrow> nat \<Rightarrow> nat \<Rightarrow> bytes \<times> nat" where
  "rd buf pos n = (let d = take n (drop pos buf) in (d, pos + length d))"





section \<open>Metadata records (AMTA)\<close>

text \<open>
  The numeric section holds one unsigned integer and five 32-bit floats. The floats are
  kept as their IEEE-754 bit patterns: no operation below computes with them.
\<close>

record AmtaUnknownSection =
  unk_1 :: nat
  unk_2 :: nat
  unk_3 :: nat
  unk_4 :: nat
  unk_5 :: nat
  unk_6 :: nat

definition AmtaUnknownSection_init :: "bytes \<Rightarrow> nat \<Rightarrow> byte_order \<Rightarrow> AmtaUnknownSection option" where
  "AmtaUnknownSection_init buf pos bo =
     (case unpack bo [4, 4, 4, 4, 4, 4] (fst (rd buf pos 24)) of
        Some [a, b, c, d, e, f] \<Rightarrow>
          Some \<lparr>unk_1 = a, unk_2 = b, unk_3 = c, unk_4 = d, unk_5 = e, unk_6 = f\<rparr>
      | _ \<Rightarrow> None)"


record AmtaUnknown2Record =
  rec_unk_1 :: nat
  rec_unk_2 :: nat
  rec_unk_3 :: nat
  rec_unk_4 :: nat

record AmtaUnknown2Section =
  u2_count :: nat
  u2_records :: "AmtaUnknown2Record list"

text \<open>
  The loop \<^verbatim>\<open>for _ in range(self.count)\<close> of AmtaUnknown2Section: it stops at the first
  chunk shorter than 16 bytes.
\<close>

fun read_unknown2_records :: "byte_order \<Rightarrow> bytes \<Rightarrow> nat \<Rightarrow> nat \<Rightarrow> AmtaUnknown2Record list" where
  "read_unknown2_records bo buf pos 0 = []"
| "read_unknown2_records bo buf pos (Suc n) =
     (let (chunk, pos') = rd buf pos 16
      in if length chunk < 16 then []
         else case unpack bo [4, 4, 4, 4] chunk of
                Some [a, b, c, d] \<Rightarrow>
                  \<lparr>rec_unk_1 = a, rec_unk_2 = b, rec_unk_3 = c, rec_unk_4 = d\<rparr>
                    # read_unknown2_records bo buf pos' n
              | _ \<Rightarrow> [])"

definition AmtaUnknown2Section_init :: "bytes \<Rightarrow> nat \<Rightarrow> byte_order \<Rightarrow> AmtaUnknown2Section option" where
  "AmtaUnknown2Section_init buf pos bo =
     (let (cb, pos') = rd buf pos 4
      in case unpack bo [4] cb of
           Some [count] \<Rightarrow>
             (let records = read_unknown2_records bo buf pos' count
              in Some \<lparr>u2_count = length records, u2_records = records\<rparr>)
         | _ \<Rightarrow> None)"

text \<open>
  A Python \<^verbatim>\<open>str\<close> is modelled by the bytes of its UTF-8 encoding, so that
  \<^verbatim>\<open>name.encode('utf8')\<close> is the identity and \<^verbatim>\<open>==\<close> on strings is equality of
  the encodings. \<^verbatim>\<open>bytes.decode("utf-8", errors="ignore")\<close> is library code: it is the
  parameter \<open>dec\<close> of the parser (the identity on ASCII bytes).
\<close>

type_synonym pystr = bytes

record Amta =
  amta_magic :: bytes
  amta_bom :: byte_order
  amta_version_minor :: nat
  amta_version_major :: nat
  amta_size :: nat
  empty_offset :: nat
  UNKNOWN_offset :: nat
  UNKNOWN2_offset :: nat
  MINF_offset :: nat
  STRINGS_offset :: nat
  empty_offset_2 :: nat
  DATA_size :: nat
  name_crc :: nat
  flags :: nat
  tracks_per_channel :: nat
  channel_count :: nat
  rest_of_data :: bytes
  UNKNOWN_section :: AmtaUnknownSection
  UNKNOWN2_section :: "AmtaUnknown2Section option"
  rest_of_file :: bytes
  name :: pystr
  amta_raw_bytes :: "bytes option"

definition bom_of_bytes :: "bytes \<Rightarrow> byte_order option" where
  "bom_of_bytes b =
     (if b = [0xFE, 0xFF] then Some BigEndian
      else if b = [0xFF, 0xFE] then Some LittleEndian
      else None)"


text \<open>\<^verbatim>\<open>haystack.index(needle)\<close>: the first position where the needle occurs.\<close>

fun find_sub :: "bytes \<Rightarrow> bytes \<Rightarrow> nat option" where
  "find_sub needle [] = (if needle = [] then Some 0 else None)"
| "find_sub needle (h # hs) =
     (if take (length needle) (h # hs) = needle then Some 0
      else map_option Suc (find_sub needle hs))"

definition extract_name :: "byte_order \<Rightarrow> bytes \<Rightarrow> bytes" where
  "extract_name bo rest =
     (case find_sub (bytes_of_string ''STRG'') rest of
        Some idx \<Rightarrow>
          (case unpack bo [4] (take 4 (drop (idx + 4) rest)) of
             Some [str_len] \<Rightarrow> take (str_len - 1) (drop (idx + 8) rest)
           | _ \<Rightarrow> [])
      | None \<Rightarrow> takeWhile (\<lambda>b. b \<noteq> 0) rest)"

text \<open>
  \<open>Amta_init dec buf start_pos\<close> is \<^verbatim>\<open>Amta(reader)\<close> on a reader over \<open>buf\<close> at
  \<open>start_pos\<close>. The failed assertions on the magic and the byte-order mark and the
  struct.error of an incomplete header or numeric section are \<open>None\<close>.
\<close>

definition Amta_init :: "(bytes \<Rightarrow> pystr) \<Rightarrow> bytes \<Rightarrow> nat \<Rightarrow> Amta option" where
  "Amta_init dec buf start_pos =
     (let (magic, p1) = rd buf start_pos 4 in
      if magic \<noteq> bytes_of_string ''AMTA'' then None else
      let (bomb, p2) = rd buf p1 2 in
      case bom_of_bytes bomb of None \<Rightarrow> None | Some bo \<Rightarrow>
      let (h1, p3) = rd buf p2 6 in
      case unpack bo [1, 1, 4] h1 of None \<Rightarrow> None | Some f1 \<Rightarrow>
      let (h2, off_pos) = rd buf p3 24 in
      case unpack bo [4, 4, 4, 4, 4, 4] h2 of None \<Rightarrow> None | Some f2 \<Rightarrow>
      let sz = f1 ! 2 in
      case AmtaUnknownSection_init buf (start_pos + f2 ! 1) bo of None \<Rightarrow> None | Some us \<Rightarrow>
      case (if f2 ! 2 > 0
            then map_option Some (AmtaUnknown2Section_init buf (start_pos + f2 ! 2) bo)
            else Some None) of None \<Rightarrow> None | Some u2 \<Rightarrow>
      let (data_tag, p4) = rd buf off_pos 4;
          p5 = (if data_tag \<noteq> bytes_of_string ''DATA'' then p4 - 4 else p4);
          (data_len_bytes, p6) = rd buf p5 4;
          dsize = (if length data_len_bytes = 4 then bytes_nat bo data_len_bytes else 0);
          (data_payload, cur_pos) = (if dsize > 0 then rd buf p6 dsize else ([], p6));
          remaining_len = (start_pos + sz) - cur_pos;
          rof = (if remaining_len \<noteq> 0 then fst (rd buf cur_pos remaining_len) else [])
      in Some \<lparr>amta_magic = magic, amta_bom = bo,
               amta_version_minor = f1 ! 0, amta_version_major = f1 ! 1, amta_size = sz,
               empty_offset = f2 ! 0, UNKNOWN_offset = f2 ! 1, UNKNOWN2_offset = f2 ! 2,
               MINF_offset = f2 ! 3, STRINGS_offset = f2 ! 4, empty_offset_2 = f2 ! 5,
               DATA_size = dsize, name_crc = 0, flags = 0, tracks_per_channel = 0,
               channel_count = 0, rest_of_data = data_payload,
               UNKNOWN_section = us, UNKNOWN2_section = u2,
               rest_of_file = rof, name = dec (extract_name bo rof),
               amta_raw_bytes = Some (fst (rd buf start_pos sz))\<rparr>)"




section \<open>Audio assets (BWAV)\<close>

record BwavFileHeader =
  hdr_magic :: bytes
  hdr_bom :: byte_order
  hdr_version_minor :: nat
  hdr_version_major :: nat
  crc :: nat
  is_prefetch :: bool
  num_channels :: nat

definition BwavFileHeader_init :: "bytes \<Rightarrow> nat \<Rightarrow> (BwavFileHeader \<times> nat) option" where
  "BwavFileHeader_init buf pos =
     (let (magic, p1) = rd buf pos 4 in
      if magic \<noteq> bytes_of_string ''BWAV'' then None else
      let (bomb, p2) = rd buf p1 2 in
      case bom_of_bytes bomb of None \<Rightarrow> None | Some bo \<Rightarrow>
      let (h, p3) = rd buf p2 10 in
      case unpack bo [1, 1, 4, 2, 2] h of None \<Rightarrow> None | Some f \<Rightarrow>
      if \<not> f ! 4 > 0 then None
      else Some (\<lparr>hdr_magic = magic, hdr_bom = bo, hdr_version_minor = f ! 0,
                  hdr_version_major = f ! 1, crc = f ! 2, is_prefetch = (f ! 3 = 1),
                  num_channels = f ! 4\<rparr>, p3))"


record BwavChannelInfo =
  codec :: nat
  channel_pan :: nat
  sample_rate :: nat
  num_samples_nonprefetch :: nat
  num_samples_this :: nat
  dsp_adpcm_coefficients :: bytes
  absolute_start_samples_nonprefetch :: nat
  absolute_start_samples_this :: nat
  is_looping :: bool
  loop_end_sample :: nat
  loop_start_sample :: nat
  predictor_scale :: nat
  history_sample_1 :: int
  history_sample_2 :: int
  padding :: nat

definition BwavChannelInfo_init :: "bytes \<Rightarrow> nat \<Rightarrow> byte_order \<Rightarrow> (BwavChannelInfo \<times> nat) option" where
  "BwavChannelInfo_init buf pos bo =
     (let (b1, p1) = rd buf pos 16 in
      case unpack bo [2, 2, 4, 4, 4] b1 of None \<Rightarrow> None | Some f \<Rightarrow>
      let (coefs, p2) = rd buf p1 32;
          (b2, p3) = rd buf p2 28 in
      case unpack bo [4, 4, 4, 4, 4, 2, 2, 2, 2] b2 of None \<Rightarrow> None | Some g \<Rightarrow>
      Some (\<lparr>codec = f ! 0, channel_pan = f ! 1, sample_rate = f ! 2,
              num_samples_nonprefetch = f ! 3, num_samples_this = f ! 4,
              dsp_adpcm_coefficients = coefs,
              absolute_start_samples_nonprefetch = g ! 0, absolute_start_samples_this = g ! 1,
              is_looping = (g ! 2 = 1), loop_end_sample = g ! 3, loop_start_sample = g ! 4,
              predictor_scale = g ! 5, history_sample_1 = signed16 (g ! 6),
              history_sample_2 = signed16 (g ! 7), padding = g ! 8\<rparr>, p3))"


text \<open>
  The cache \<open>decoded_channels\<close> holds \<open>None\<close> or the decoded samples of each channel.
  An asset with an unknown magic keeps the bytes in \<open>bwav_raw_bytes\<close> and has no header
  (and no \<open>decoded_channels\<close> attribute: the empty list here).
\<close>

record Bwav =
  header :: "BwavFileHeader option"
  channel_infos :: "BwavChannelInfo list"
  channel_samples :: "bytes list"
  bwav_raw_bytes :: "bytes option"
  decoded_channels :: "int list option list"

fun read_channel_infos :: "bytes \<Rightarrow> nat \<Rightarrow> byte_order \<Rightarrow> nat \<Rightarrow> (BwavChannelInfo list \<times> nat) option" where
  "read_channel_infos buf pos bo 0 = Some ([], pos)"
| "read_channel_infos buf pos bo (Suc n) =
     (case BwavChannelInfo_init buf pos bo of
        None \<Rightarrow> None
      | Some (c, pos') \<Rightarrow>
          (case read_channel_infos buf pos' bo n of
             None \<Rightarrow> None
           | Some (cs, pos'') \<Rightarrow> Some (c # cs, pos'')))"

text \<open>
  The sample bytes of one channel. An Opus channel (codec 2) carries its length at
  offset 36; any other channel reads \<open>size\<close> minus the start offset of the last channel,
  and nothing when that is not positive.
\<close>

definition read_channel_samples :: "bytes \<Rightarrow> nat \<Rightarrow> byte_order \<Rightarrow> nat \<Rightarrow> nat \<Rightarrow> BwavChannelInfo \<Rightarrow> bytes option" where
  "read_channel_samples buf pos bo size_arg last_start channel =
     (let p = pos + absolute_start_samples_this channel in
      if codec channel = 2 then
        (case unpack bo [4] (fst (rd buf (p + 36) 4)) of
           Some [n] \<Rightarrow> Some (fst (rd buf p (n + 40)))
         | _ \<Rightarrow> None)
      else
        (let samples_size = int size_arg - int last_start
         in Some (if samples_size > 0 then fst (rd buf p (nat samples_size)) else [])))"

fun read_all_samples :: "bytes \<Rightarrow> nat \<Rightarrow> byte_order \<Rightarrow> nat \<Rightarrow> nat \<Rightarrow> BwavChannelInfo list \<Rightarrow> bytes list option" where
  "read_all_samples buf pos bo size_arg last_start [] = Some []"
| "read_all_samples buf pos bo size_arg last_start (c # cs) =
     (case read_channel_samples buf pos bo size_arg last_start c of
        None \<Rightarrow> None
      | Some s \<Rightarrow>
          (case read_all_samples buf pos bo size_arg last_start cs of
             None \<Rightarrow> None
           | Some ss \<Rightarrow> Some (s # ss)))"

text \<open>
  \<open>Bwav_parse buf pos size_arg\<close> is the body of \<^verbatim>\<open>Bwav.__init__\<close> once the reader and
  the size are known. \<open>Bwav_init\<close> is the call with a reader, which raises ValueError
  when no size is passed (\<^verbatim>\<open>not size\<close> also holds for 0); \<open>Bwav_of_path\<close> is the call
  with a path, on the contents of that file.
\<close>

definition Bwav_parse :: "bytes \<Rightarrow> nat \<Rightarrow> nat \<Rightarrow> Bwav option" where
  "Bwav_parse buf pos size_arg =
     (let magic_peek = fst (rd buf pos 4) in
      if magic_peek \<noteq> bytes_of_string ''BWAV''
      then Some \<lparr>header = None, channel_infos = [], channel_samples = [],
                 bwav_raw_bytes = Some (fst (rd buf pos size_arg)), decoded_channels = []\<rparr>
      else
        case BwavFileHeader_init buf pos of None \<Rightarrow> None | Some (h, p1) \<Rightarrow>
        case read_channel_infos buf p1 (hdr_bom h) (num_channels h) of None \<Rightarrow> None
        | Some (infos, p2) \<Rightarrow>
        case read_all_samples buf pos (hdr_bom h) size_arg
               (absolute_start_samples_this (last infos)) infos of None \<Rightarrow> None
        | Some samples \<Rightarrow>
        Some \<lparr>header = Some h, channel_infos = infos, channel_samples = samples,
              bwav_raw_bytes = None, decoded_channels = replicate (num_channels h) None\<rparr>)"

definition Bwav_init :: "bytes \<Rightarrow> nat \<Rightarrow> nat \<Rightarrow> Bwav option" where
  "Bwav_init buf pos size_arg = (if size_arg = 0 then None else Bwav_parse buf pos size_arg)"







section \<open>Decoding\<close>

















section \<open>Prefetch conversion\<close>





section \<open>The container (BARS)\<close>





text \<open>
  An asset of the container is a \<open>Bwav\<close> object or a \<open>RawAsset\<close>. The container never
  mutates an asset it holds (a replacement swaps the list element), so the list
  \<open>assets\<close> holds values; two entries that share one object hold equal values.
\<close>

datatype asset = BwavAsset Bwav | RawAsset bytes




definition load_asset_from_bytes :: "bytes \<Rightarrow> asset option" where
  "load_asset_from_bytes data =
     (if take 4 data = bytes_of_string ''BWAV''
      then map_option BwavAsset (Bwav_init data 0 (length data))
      else Some (RawAsset data))"

text \<open>
  Asset offsets are \<open>int\<close>: a replacement adds a size difference, which may be negative,
  to the offsets that follow.
\<close>

record Bars =
  bars_magic :: bytes
  bars_size :: nat
  bars_bom :: byte_order
  bars_version_minor :: nat
  bars_version_major :: nat
  meta_count :: nat
  crc_hashes :: "nat list"
  meta_offsets :: "nat list"
  asset_offsets :: "int list"
  unknown :: bytes
  metas :: "Amta list"
  assets :: "asset list"

text \<open>The loop over the offset-pair table: it stops at the first truncated entry.\<close>

fun read_offset_pairs :: "byte_order \<Rightarrow> bytes \<Rightarrow> nat \<Rightarrow> nat \<Rightarrow> (nat list \<times> int list \<times> nat)" where
  "read_offset_pairs bo buf pos 0 = ([], [], pos)"
| "read_offset_pairs bo buf pos (Suc n) =
     (let (chunk, pos') = rd buf pos 8
      in if length chunk < 8 then ([], [], pos')
         else
           let meta_offset = bytes_nat bo (take 4 chunk);
               asset_offset = bytes_nat bo (drop 4 chunk);
               (ms, as, pos'') = read_offset_pairs bo buf pos' n
           in (meta_offset # ms, int asset_offset # as, pos''))"

fun load_metas :: "(bytes \<Rightarrow> pystr) \<Rightarrow> bytes \<Rightarrow> nat list \<Rightarrow> Amta list option" where
  "load_metas dec buf [] = Some []"
| "load_metas dec buf (meta_offset # rest) =
     (case Amta_init dec buf meta_offset of
        None \<Rightarrow> None
      | Some amta \<Rightarrow>
          (case load_metas dec buf rest of None \<Rightarrow> None | Some ms \<Rightarrow> Some (amta # ms)))"

text \<open>
  The byte length requested for the asset at \<open>asset_offset\<close>: the distance to the
  smallest strictly greater offset of the table, or to the declared size \<open>self.size\<close>
  of the header when no offset is greater; never negative.
\<close>

definition asset_read_size :: "int list \<Rightarrow> nat \<Rightarrow> int \<Rightarrow> nat" where
  "asset_read_size all_offsets size_field asset_offset =
     (let higher_offsets = filter (\<lambda>offset. offset > asset_offset) all_offsets;
          read_size = (if higher_offsets \<noteq> [] then fold min higher_offsets (hd higher_offsets)
                       else int size_field) - asset_offset
      in nat (max 0 read_size))"

text \<open>
  The loop over the asset offsets, with the cache \<open>asset_cache\<close> (a dictionary from
  offset to asset) as an association list.
\<close>

fun load_assets :: "bytes \<Rightarrow> nat \<Rightarrow> int list \<Rightarrow> (int \<times> asset) list \<Rightarrow> int list \<Rightarrow> asset list option" where
  "load_assets buf size_field all_offsets asset_cache [] = Some []"
| "load_assets buf size_field all_offsets asset_cache (asset_offset # rest) =
     (case map_of asset_cache asset_offset of
        Some a \<Rightarrow>
          (case load_assets buf size_field all_offsets asset_cache rest of
             None \<Rightarrow> None
           | Some as \<Rightarrow> Some (a # as))
      | None \<Rightarrow>
          (let read_size = asset_read_size all_offsets size_field asset_offset;
               blob = fst (rd buf (nat asset_offset) read_size)
           in case load_asset_from_bytes blob of
                None \<Rightarrow> None
              | Some a \<Rightarrow>
                  (case load_assets buf size_field all_offsets
                          ((asset_offset, a) # asset_cache) rest of
                     None \<Rightarrow> None
                   | Some as \<Rightarrow> Some (a # as))))"

text \<open>\<open>Bars_init dec buf\<close> is \<^verbatim>\<open>Bars(reader)\<close> on a reader over \<open>buf\<close> at position 0.\<close>

definition Bars_init :: "(bytes \<Rightarrow> pystr) \<Rightarrow> bytes \<Rightarrow> Bars option" where
  "Bars_init dec buf =
     (let (magic, p1) = rd buf 0 4 in
      if magic \<noteq> bytes_of_string ''BARS'' then None else
      let (size_b, p2) = rd buf p1 4;
          (bomb, p3) = rd buf p2 2 in
      case bom_of_bytes bomb of None \<Rightarrow> None | Some bo \<Rightarrow>
      let (version, p4) = rd buf p3 2;
          (meta_count_b, p5) = rd buf p4 4 in
      case unpack bo [4, 1, 1, 4] (size_b @ version @ meta_count_b) of None \<Rightarrow> None
      | Some f \<Rightarrow>
      let count = f ! 3;
          (hash_b, p6) = rd buf p5 (4 * count) in
      case unpack bo (replicate count 4) hash_b of None \<Rightarrow> None | Some hashes \<Rightarrow>
      let (meta_offs, asset_offs, p7) = read_offset_pairs bo buf p6 count;
          count' = min count (length meta_offs);
          hashes' = take count' hashes;
          unk = (if meta_offs \<noteq> [] then fst (rd buf p7 (hd meta_offs - p7)) else []) in
      case load_metas dec buf meta_offs of None \<Rightarrow> None | Some ms \<Rightarrow>
      case load_assets buf (f ! 0) asset_offs [] asset_offs of None \<Rightarrow> None | Some as \<Rightarrow>
      Some \<lparr>bars_magic = magic, bars_size = f ! 0, bars_bom = bo,
            bars_version_minor = f ! 1, bars_version_major = f ! 2, meta_count = count',
            crc_hashes = hashes', meta_offsets = meta_offs, asset_offsets = asset_offs,
            unknown = unk, metas = ms, assets = as\<rparr>)"














section \<open>Replacing and inserting entries\<close>





text \<open>
  The IEEE-754 single-precision bit pattern of \<open>k / 32768\<close> for \<open>k \<le> 32768\<close>, which
  \<^verbatim>\<open>struct.pack\<close> writes for the peak volume: such a quotient is a float exactly.
  \<open>e\<close> is the position of the highest set bit of \<open>k\<close>.
\<close>

definition float32_of_peak :: "nat \<Rightarrow> nat" where
  "float32_of_peak k =
     (if k = 0 then 0
      else let e = length (filter (\<lambda>i. 2 ^ i \<le> k) [1..<24])
           in (e + 112) * 2 ^ 23 + (k - 2 ^ e) * 2 ^ (23 - e))"







section \<open>Auxiliary notions for the written file\<close>



section \<open>Concrete inputs\<close>




text \<open>
  A container file of 516 bytes with two entries, named \<open>drift\<close> and \<open>b\<close> (hashes in
  ascending order), two metadata records of 76 and 72 bytes and two one-channel PCM16
  assets of 192 and 132 bytes; \<open>ex_bars\<close> is the container that parsing it gives
  (lemma \<open>ex_parse\<close>). \<open>ex_new_file\<close> is an asset file (the bytes of the second
  asset), and \<open>ex_bars_ins\<close> is \<open>ex_bars\<close> after the insertion of that file under the
  name \<open>a\<close>. \<open>ex_opus\<close> is a decoder that rejects every packet.
\<close>

definition ex_file :: bytes where
  "ex_file =
     [66, 65, 82, 83, 4, 2, 0, 0, 255, 254, 2, 1, 2, 0, 0, 0, 44, 199, 111, 72,
     249, 239, 190, 113, 40, 0, 0, 0, 192, 0, 0, 0, 116, 0, 0, 0, 128, 1, 0, 0,
     65, 77, 84, 65, 255, 254, 0, 5, 76, 0, 0, 0, 0, 0, 0, 0, 44, 0, 0, 0,
     0, 0, 0, 0, 0, 0, 0, 0, 0, 0, 0, 0, 0, 0, 0, 0, 68, 65, 84, 65,
     24, 0, 0, 0, 79, 0, 0, 0, 0, 0, 0, 63, 10, 215, 163, 59, 102, 102, 46, 194,
     102, 102, 46, 194, 0, 0, 0, 0, 100, 114, 105, 102, 116, 0, 0, 0, 65, 77, 84, 65,
     255, 254, 0, 5, 72, 0, 0, 0, 0, 0, 0, 0, 44, 0, 0, 0, 0, 0, 0, 0,
     0, 0, 0, 0, 0, 0, 0, 0, 0, 0, 0, 0, 68, 65, 84, 65, 24, 0, 0, 0,
     79, 0, 0, 0, 0, 0, 0, 63, 10, 215, 163, 59, 102, 102, 46, 194, 102, 102, 46, 194,
     0, 0, 0, 0, 98, 0, 0, 0, 0, 0, 0, 0, 66, 87, 65, 86, 255, 254, 0, 1,
     0, 0, 0, 0, 0, 0, 1, 0, 0, 0, 0, 0, 128, 187, 0, 0, 32, 0, 0, 0,
     32, 0, 0, 0, 0, 0, 0, 0, 0, 0, 0, 0, 0, 0, 0, 0, 0, 0, 0, 0,
     0, 0, 0, 0, 0, 0, 0, 0, 0, 0, 0, 0, 0, 0, 0, 0, 128, 0, 0, 0,
     128, 0, 0, 0, 0, 0, 0, 0, 0, 0, 0, 0, 0, 0, 0, 0, 0, 0, 0, 0,
     0, 0, 0, 0, 0, 0, 0, 0, 0, 0, 0, 0, 0, 0, 0, 0, 0, 0, 0, 0,
     0, 0, 0, 0, 0, 0, 0, 0, 0, 0, 0, 0, 0, 0, 0, 0, 0, 0, 0, 0,
     1, 0, 2, 0, 3, 0, 4, 0, 5, 0, 6, 0, 7, 0, 8, 0, 9, 0, 10, 0,
     11, 0, 12, 0, 13, 0, 14, 0, 15, 0, 16, 0, 17, 0, 18, 0, 19, 0, 20, 0,
     21, 0, 22, 0, 23, 0, 24, 0, 25, 0, 26, 0, 27, 0, 28, 0, 29, 0, 30, 0,
     31, 0, 32, 0, 66, 87, 65, 86, 255, 254, 0, 1, 0, 0, 0, 0, 0, 0, 1, 0,
     0, 0, 0, 0, 128, 187, 0, 0, 2, 0, 0, 0, 2, 0, 0, 0, 0, 0, 0, 0,
     0, 0, 0, 0, 0, 0, 0, 0, 0, 0, 0, 0, 0, 0, 0, 0, 0, 0, 0, 0,
     0, 0, 0, 0, 0, 0, 0, 0, 128, 0, 0, 0, 128, 0, 0, 0, 0, 0, 0, 0,
     0, 0, 0, 0, 0, 0, 0, 0, 0, 0, 0, 0, 0, 0, 0, 0, 0, 0, 0, 0,
     0, 0, 0, 0, 0, 0, 0, 0, 0, 0, 0, 0, 0, 0, 0, 0, 0, 0, 0, 0,
     0, 0, 0, 0, 0, 0, 0, 0, 0, 0, 0, 0, 3, 0, 4, 0]"

definition ex_amta_drift :: Amta where
  "ex_amta_drift = \<lparr>amta_magic = [65, 77, 84, 65], amta_bom = LittleEndian,
      amta_version_minor = 0, amta_version_major = 5, amta_size = 76,
      empty_offset = 0, UNKNOWN_offset = 44, UNKNOWN2_offset = 0, MINF_offset = 0,
      STRINGS_offset = 0, empty_offset_2 = 0, DATA_size = 24, name_crc = 0, flags = 0,
      tracks_per_channel = 0, channel_count = 0,
      rest_of_data = [79, 0, 0, 0, 0, 0, 0, 63, 10, 215, 163, 59, 102, 102, 46, 194, 102, 102, 46, 194,
        0, 0, 0, 0],
      UNKNOWN_section = \<lparr>unk_1 = 79, unk_2 = 1056964608, unk_3 = 1000593162, unk_4 = 3257820774, unk_5 = 3257820774,
        unk_6 = 0\<rparr>,
      UNKNOWN2_section = None, rest_of_file = [100, 114, 105, 102, 116, 0, 0, 0], name = [100, 114, 105, 102, 116],
      amta_raw_bytes = Some [65, 77, 84, 65, 255, 254, 0, 5, 76, 0, 0, 0, 0, 0, 0, 0, 44, 0, 0, 0,
        0, 0, 0, 0, 0, 0, 0, 0, 0, 0, 0, 0, 0, 0, 0, 0, 68, 65, 84, 65,
        24, 0, 0, 0, 79, 0, 0, 0, 0, 0, 0, 63, 10, 215, 163, 59, 102, 102, 46, 194,
        102, 102, 46, 194, 0, 0, 0, 0, 100, 114, 105, 102, 116, 0, 0, 0]\<rparr>"

definition ex_amta_b :: Amta where
  "ex_amta_b = \<lparr>amta_magic = [65, 77, 84, 65], amta_bom = LittleEndian,
      amta_version_minor = 0, amta_version_major = 5, amta_size = 72,
      empty_offset = 0, UNKNOWN_offset = 44, UNKNOWN2_offset = 0, MINF_offset = 0,
      STRINGS_offset = 0, empty_offset_2 = 0, DATA_size = 24, name_crc = 0, flags = 0,
      tracks_per_channel = 0, channel_count = 0,
      rest_of_data = [79, 0, 0, 0, 0, 0, 0, 63, 10, 215, 163, 59, 102, 102, 46, 194, 102, 102, 46, 194,
        0, 0, 0, 0],
      UNKNOWN_section = \<lparr>unk_1 = 79, unk_2 = 1056964608, unk_3 = 1000593162, unk_4 = 3257820774, unk_5 = 3257820774,
        unk_6 = 0\<rparr>,
      UNKNOWN2_section = None, rest_of_file = [98, 0, 0, 0], name = [98],
      amta_raw_bytes = Some [65, 77, 84, 65, 255, 254, 0, 5, 72, 0, 0, 0, 0, 0, 0, 0, 44, 0, 0, 0,
        0, 0, 0, 0, 0, 0, 0, 0, 0, 0, 0, 0, 0, 0, 0, 0, 68, 65, 84, 65,
        24, 0, 0, 0, 79, 0, 0, 0, 0, 0, 0, 63, 10, 215, 163, 59, 102, 102, 46, 194,
        102, 102, 46, 194, 0, 0, 0, 0, 98, 0, 0, 0]\<rparr>"

definition ex_bwav1 :: Bwav where
  "ex_bwav1 = \<lparr>header = Some \<lparr>hdr_magic = [66, 87, 65, 86], hdr_bom = LittleEndian,
        hdr_version_minor = 0, hdr_version_major = 1, crc = 0, is_prefetch = False,
        num_channels = 1\<rparr>,
      channel_infos = [\<lparr>codec = 0, channel_pan = 0, sample_rate = 48000,
        num_samples_nonprefetch = 32, num_samples_this = 32,
        dsp_adpcm_coefficients = replicate 32 0,
        absolute_start_samples_nonprefetch = 128, absolute_start_samples_this = 128,
        is_looping = False, loop_end_sample = 0, loop_start_sample = 0, predictor_scale = 0,
        history_sample_1 = 0, history_sample_2 = 0, padding = 0\<rparr>],
      channel_samples = [[1, 0, 2, 0, 3, 0, 4, 0, 5, 0, 6, 0, 7, 0, 8, 0, 9, 0, 10, 0,
        11, 0, 12, 0, 13, 0, 14, 0, 15, 0, 16, 0, 17, 0, 18, 0, 19, 0, 20, 0,
        21, 0, 22, 0, 23, 0, 24, 0, 25, 0, 26, 0, 27, 0, 28, 0, 29, 0, 30, 0,
        31, 0, 32, 0]],
      bwav_raw_bytes = None, decoded_channels = [None]\<rparr>"

definition ex_bwav2 :: Bwav where
  "ex_bwav2 = \<lparr>header = Some \<lparr>hdr_magic = [66, 87, 65, 86], hdr_bom = LittleEndian,
        hdr_version_minor = 0, hdr_version_major = 1, crc = 0, is_prefetch = False,
        num_channels = 1\<rparr>,
      channel_infos = [\<lparr>codec = 0, channel_pan = 0, sample_rate = 48000,
        num_samples_nonprefetch = 2, num_samples_this = 2,
        dsp_adpcm_coefficients = replicate 32 0,
        absolute_start_samples_nonprefetch = 128, absolute_start_samples_this = 128,
        is_looping = False, loop_end_sample = 0, loop_start_sample = 0, predictor_scale = 0,
        history_sample_1 = 0, history_sample_2 = 0, padding = 0\<rparr>],
      channel_samples = [[3, 0, 4, 0]],
      bwav_raw_bytes = None, decoded_channels = [None]\<rparr>"

definition ex_bars :: Bars where
  "ex_bars = \<lparr>bars_magic = [66, 65, 82, 83], bars_size = 516, bars_bom = LittleEndian,
      bars_version_minor = 2, bars_version_major = 1, meta_count = 2,
      crc_hashes = [1215285036, 1908338681], meta_offsets = [40, 116],
      asset_offsets = [192, 384], unknown = [],
      metas = [ex_amta_drift, ex_amta_b],
      assets = [BwavAsset ex_bwav1, BwavAsset ex_bwav2]\<rparr>"






section \<open>Evaluation on concrete inputs\<close>


lemma replicate_numeral: "replicate (numeral k) x = x # replicate (pred_numeral k) x"
  by (simp only: numeral_eq_Suc [of k] replicate.simps)




section \<open>Properties of the alignment utilities\<close>

lemma pad_till_len_eq:
  assumes "0 < m"
  shows "pad_till (int n) (int m) = Some (int (pad_till_len n m))"
proof -
  have "int n mod int m = int (n mod m)" by (simp add: zmod_int)
  moreover have "n mod m < m" using assms by simp
  then have "int (n + (m - n mod m)) = int n + (int m - int (n mod m))"
    by (simp add: of_nat_diff)
  ultimately show ?thesis
    using assms by (simp add: pad_till_def pad_count_def pad_till_len_def Let_def)
qed

lemma pad_count_Some:
  assumes "0 \<le> pos" and "0 < align"
  shows "pad_count pos align = Some (if pos mod align = 0 then 0 else align - pos mod align)"
  using assms by (simp add: pad_count_def Let_def)

lemma pad_till_Some:
  assumes "0 \<le> pos" and "0 < align"
  shows "pad_till pos align = Some (pos + (if pos mod align = 0 then 0 else align - pos mod align))"
  using assms by (simp add: pad_till_def pad_count_Some)

text \<open>
  Claim C8, as the code has it: on every \<open>pos \<ge> 0\<close> and every positive \<open>align\<close>
  both functions return (they raise nothing), \<open>pad_till\<close> returns a multiple of
  \<open>align\<close> that is at least \<open>pos\<close> and less than \<open>align\<close> above it, it is
  \<open>pos\<close> plus \<open>pad_count\<close>, and \<open>pad_count\<close> is 0 on an aligned position.
\<close>

theorem pad_till_spec:
  assumes "0 \<le> pos" and "0 < align"
  shows "\<exists>r c. pad_till pos align = Some r \<and> pad_count pos align = Some c
           \<and> r = pos + c \<and> 0 \<le> c
           \<and> r \<ge> pos \<and> r mod align = 0 \<and> r - pos < align
           \<and> (pos mod align = 0 \<longrightarrow> c = 0)"
proof -
  let ?c = "if pos mod align = 0 then 0 else align - pos mod align"
  have m: "0 \<le> pos mod align" "pos mod align < align"
    using assms by simp_all
  have c0: "0 \<le> ?c" using m by simp
  have c1: "?c < align"
  proof (cases "pos mod align = 0")
    case True
    then show ?thesis using assms by simp
  next
    case False
    with m have "0 < pos mod align" by linarith
    then show ?thesis using False by simp
  qed
  have "(pos + ?c) mod align = 0"
  proof (cases "pos mod align = 0")
    case True
    then show ?thesis by simp
  next
    case False
    have "(pos + (align - pos mod align)) mod align = (pos - pos mod align + align) mod align"
      by (simp add: algebra_simps)
    also have "\<dots> = (pos - pos mod align) mod align" by simp
    also have "\<dots> = 0" by (simp add: minus_mod_eq_mult_div)
    finally show ?thesis using False by simp
  qed
  with c0 c1 show ?thesis
    using assms by (simp add: pad_till_Some pad_count_Some)
qed

theorem pad_till_spec_witness:
  "pad_till 100 64 = Some 128 \<and> pad_count 100 64 = Some 28 \<and> pad_count 128 64 = Some 0"
proof -
  have "\<exists>r c. pad_till 100 64 = Some r \<and> pad_count 100 64 = Some c
           \<and> r = 100 + c \<and> 0 \<le> c
           \<and> r \<ge> 100 \<and> r mod 64 = 0 \<and> r - 100 < 64
           \<and> ((100::int) mod 64 = 0 \<longrightarrow> c = 0)"
    using pad_till_spec [of 100 64] by simp
  then show ?thesis by (simp add: pad_till_def pad_count_def)
qed

text \<open>
  Claim C8 as stated (for every \<open>pos\<close> the functions never fail) does not hold: a
  negative position trips the assertion of both functions.
\<close>

theorem pad_till_negative_counterexample:
  "pad_till (- 1) 64 = None \<and> pad_count (- 1) 64 = None"
  by (simp add: pad_till_def pad_count_def)


section \<open>Serialization brings the parallel collections to one length\<close>
























































section \<open>The example file and its container\<close>

lemma ex_file_length: "length ex_file = 516"
  by (simp add: ex_file_def)

lemma ex_parse_amta_drift: "Amta_init id ex_file 40 = Some ex_amta_drift"
  by (simp add: Amta_init_def ex_file_def ex_amta_drift_def rd_def bytes_of_string_def
      bom_of_bytes_def unpack_def bytes_nat_def AmtaUnknownSection_init_def extract_name_def
      Let_def)

lemma ex_parse_amta_b: "Amta_init id ex_file 116 = Some ex_amta_b"
  by (simp add: Amta_init_def ex_file_def ex_amta_b_def rd_def bytes_of_string_def
      bom_of_bytes_def unpack_def bytes_nat_def AmtaUnknownSection_init_def extract_name_def
      Let_def)

lemmas bwav_parse_defs = load_asset_from_bytes_def Bwav_init_def Bwav_parse_def
  BwavFileHeader_init_def BwavChannelInfo_init_def read_channel_samples_def rd_def
  bytes_of_string_def bom_of_bytes_def unpack_def bytes_nat_def signed16_def
  replicate_numeral Let_def

lemma ex_parse_bwav1:
  "load_asset_from_bytes
     [66, 87, 65, 86, 255, 254, 0, 1, 0, 0, 0, 0, 0, 0, 1, 0, 0, 0, 0, 0,
     128, 187, 0, 0, 32, 0, 0, 0, 32, 0, 0, 0, 0, 0, 0, 0, 0, 0, 0, 0,
     0, 0, 0, 0, 0, 0, 0, 0, 0, 0, 0, 0, 0, 0, 0, 0, 0, 0, 0, 0,
     0, 0, 0, 0, 128, 0, 0, 0, 128, 0, 0, 0, 0, 0, 0, 0, 0, 0, 0, 0,
     0, 0, 0, 0, 0, 0, 0, 0, 0, 0, 0, 0, 0, 0, 0, 0, 0, 0, 0, 0,
     0, 0, 0, 0, 0, 0, 0, 0, 0, 0, 0, 0, 0, 0, 0, 0, 0, 0, 0, 0,
     0, 0, 0, 0, 0, 0, 0, 0, 1, 0, 2, 0, 3, 0, 4, 0, 5, 0, 6, 0,
     7, 0, 8, 0, 9, 0, 10, 0, 11, 0, 12, 0, 13, 0, 14, 0, 15, 0, 16, 0,
     17, 0, 18, 0, 19, 0, 20, 0, 21, 0, 22, 0, 23, 0, 24, 0, 25, 0, 26, 0,
     27, 0, 28, 0, 29, 0, 30, 0, 31, 0, 32, 0]
   = Some (BwavAsset ex_bwav1)"
  by (simp add: bwav_parse_defs ex_bwav1_def)

lemma ex_parse_bwav2:
  "load_asset_from_bytes
     [66, 87, 65, 86, 255, 254, 0, 1, 0, 0, 0, 0, 0, 0, 1, 0, 0, 0, 0, 0,
     128, 187, 0, 0, 2, 0, 0, 0, 2, 0, 0, 0, 0, 0, 0, 0, 0, 0, 0, 0,
     0, 0, 0, 0, 0, 0, 0, 0, 0, 0, 0, 0, 0, 0, 0, 0, 0, 0, 0, 0,
     0, 0, 0, 0, 128, 0, 0, 0, 128, 0, 0, 0, 0, 0, 0, 0, 0, 0, 0, 0,
     0, 0, 0, 0, 0, 0, 0, 0, 0, 0, 0, 0, 0, 0, 0, 0, 0, 0, 0, 0,
     0, 0, 0, 0, 0, 0, 0, 0, 0, 0, 0, 0, 0, 0, 0, 0, 0, 0, 0, 0,
     0, 0, 0, 0, 0, 0, 0, 0, 3, 0, 4, 0]
   = Some (BwavAsset ex_bwav2)"
  by (simp add: bwav_parse_defs ex_bwav2_def)

lemma read_offset_pairs_numeral:
  "read_offset_pairs bo buf pos (numeral k) = read_offset_pairs bo buf pos (Suc (pred_numeral k))"
  by (simp only: numeral_eq_Suc)

lemma ex_parse: "Bars_init id ex_file = Some ex_bars"
  by (simp add: Bars_init_def ex_file_def rd_def bytes_of_string_def bom_of_bytes_def
      unpack_def bytes_nat_def replicate_numeral read_offset_pairs_numeral
      ex_parse_amta_drift [unfolded ex_file_def] ex_parse_amta_b [unfolded ex_file_def]
      asset_read_size_def ex_parse_bwav1 ex_parse_bwav2 ex_bars_def Let_def)




lemma ex_peak_one: "float32_of_peak 32768 = 1065353216"
  by (simp add: float32_of_peak_def upt_conv_Cons)

lemma peak_checks: "float32_of_peak 12345 = 1052828672" "float32_of_peak 1 = 939524096"
  "float32_of_peak 32767 = 1065352704" "float32_of_peak 0 = 0"
  by (simp_all add: float32_of_peak_def upt_conv_Cons)


















section \<open>Insertion keeps the hash array sorted\<close>









section \<open>What the insert-or-replace operation returns\<close>





end
